theory Spec2Isabelle
  imports Main "HOL-Library.AList"
begin

section \<open>dlopt.optimization: Problem and Solution\<close>

text \<open>
  A shallow embedding of \<^verbatim>\<open>src/dlopt/optimization.py\<close>.

  A Python \<^verbatim>\<open>dict\<close> is an association list in insertion order; a dictionary never
  holds a key twice, which is the predicate \<open>wf_dict\<close>. Target directions and fitness
  values are Python integers (\<open>int\<close>); the encoded value of a variable is opaque
  (\<open>'e\<close>), with \<open>None\<close> for Python's \<^verbatim>\<open>None\<close>. An exception is a value of
  \<open>error\<close>, carrying the message of \<^verbatim>\<open>Exception(...)\<close> or the key of a
  \<^verbatim>\<open>KeyError\<close>.
\<close>

subsection \<open>Dictionaries and exceptions\<close>

datatype error = Exception string | KeyError string

type_synonym ('k, 'v) dict = "('k \<times> 'v) list"

definition wf_dict :: "('k, 'v) dict \<Rightarrow> bool" where
  "wf_dict d = distinct (map fst d)"

definition dict_keys :: "('k, 'v) dict \<Rightarrow> 'k list" where
  "dict_keys d = map fst d"

definition dict_items :: "('k, 'v) dict \<Rightarrow> ('k \<times> 'v) list" where
  "dict_items d = d"

definition dict_len :: "('k, 'v) dict \<Rightarrow> nat" where
  "dict_len d = length d"

text \<open>\<^verbatim>\<open>k in d\<close>\<close>

definition dict_contains :: "('k, 'v) dict \<Rightarrow> 'k \<Rightarrow> bool" where
  "dict_contains d k = (map_of d k \<noteq> None)"

text \<open>\<^verbatim>\<open>d[k]\<close>, which raises \<^verbatim>\<open>KeyError\<close> on a missing key.\<close>

definition dict_getitem :: "(string, 'v) dict \<Rightarrow> string \<Rightarrow> error + 'v" where
  "dict_getitem d k = (case map_of d k of None \<Rightarrow> Inl (KeyError k) | Some v \<Rightarrow> Inr v)"

text \<open>\<^verbatim>\<open>d[k] = v\<close>: an existing key keeps its place, a new key goes last.\<close>

definition dict_setitem :: "('k, 'v) dict \<Rightarrow> 'k \<Rightarrow> 'v \<Rightarrow> ('k, 'v) dict" where
  "dict_setitem d k v = AList.update k v d"

subsection \<open>Problem\<close>

record ('d, 'k) Problem =
  p_targets :: "(string, int) dict"
  p_data :: 'd
  p_kwargs :: 'k
  p_verbose :: int

text \<open>
  The loop \<^verbatim>\<open>for t in targets: if np.abs(targets[t]) != 1: raise ...\<close>
  of \<^verbatim>\<open>Problem.__init__\<close>, over the keys still to visit.
\<close>

fun check_targets :: "(string, int) dict \<Rightarrow> string list \<Rightarrow> error + unit" where
  "check_targets targets [] = Inr ()"
| "check_targets targets (t # ts) =
     (case dict_getitem targets t of
        Inl e \<Rightarrow> Inl e
      | Inr d \<Rightarrow>
          if \<bar>d\<bar> \<noteq> 1 then Inl (Exception ''Target must be 1 or -1'')
          else check_targets targets ts)"

definition Problem_init ::
  "'d \<Rightarrow> (string, int) dict \<Rightarrow> int \<Rightarrow> 'k \<Rightarrow> error + ('d, 'k) Problem" where
  "Problem_init data targets verbose kwargs =
     (case check_targets targets (dict_keys targets) of
        Inl e \<Rightarrow> Inl e
      | Inr _ \<Rightarrow>
          Inr \<lparr>p_targets = targets, p_data = data, p_kwargs = kwargs, p_verbose = verbose\<rparr>)"

subsection \<open>Solution\<close>

record 'e Solution =
  targets :: "(string, int) dict"
  fitness :: "(string, int) dict"
  encoded :: "(string, 'e option) dict"

text \<open>\<^verbatim>\<open>for variable_name in variable_names: self.encoded[variable_name] = None\<close>\<close>

fun init_encoded ::
  "(string, 'e option) dict \<Rightarrow> string list \<Rightarrow> (string, 'e option) dict" where
  "init_encoded enc [] = enc"
| "init_encoded enc (variable_name # rest) =
     init_encoded (dict_setitem enc variable_name None) rest"

definition Solution_init :: "(string, int) dict \<Rightarrow> string list \<Rightarrow> 'e Solution" where
  "Solution_init targets' variable_names =
     \<lparr>targets = targets', fitness = [], encoded = init_encoded [] variable_names\<rparr>"

definition get_encoded :: "'e Solution \<Rightarrow> string \<Rightarrow> error + 'e option" where
  "get_encoded self variable_name = dict_getitem (encoded self) variable_name"

definition set_encoded :: "'e Solution \<Rightarrow> string \<Rightarrow> 'e option \<Rightarrow> 'e Solution" where
  "set_encoded self variable_name v =
     self\<lparr>encoded := dict_setitem (encoded self) variable_name v\<rparr>"

definition get_fitness :: "'e Solution \<Rightarrow> string \<Rightarrow> error + int" where
  "get_fitness self target =
     (if dict_contains (targets self) target then dict_getitem (fitness self) target
      else Inl (Exception '''target' does not match''))"

text \<open>
  A method that mutates the solution returns what it raised (or \<open>Inr ()\<close>) together
  with the solution as it is afterwards.
\<close>

definition set_fitness :: "'e Solution \<Rightarrow> string \<Rightarrow> int \<Rightarrow> (error + unit) \<times> 'e Solution" where
  "set_fitness self target v =
     (if dict_contains (targets self) target
      then (Inr (), self\<lparr>fitness := dict_setitem (fitness self) target v\<rparr>)
      else (Inl (Exception '''target' does not match''), self))"

text \<open>\<^verbatim>\<open>for target in self.targets: self.fitness = {}\<close>\<close>

fun clear_loop :: "'e Solution \<Rightarrow> string list \<Rightarrow> 'e Solution" where
  "clear_loop self [] = self"
| "clear_loop self (target # rest) = clear_loop (self\<lparr>fitness := []\<rparr>) rest"

definition clear_fitness :: "'e Solution \<Rightarrow> 'e Solution" where
  "clear_fitness self = clear_loop self (dict_keys (targets self))"

text \<open>\<^verbatim>\<open>for target in self.targets: if target not in self.fitness: return False\<close>\<close>

fun evaluated_loop :: "(string, int) dict \<Rightarrow> string list \<Rightarrow> bool" where
  "evaluated_loop fit [] = True"
| "evaluated_loop fit (target # rest) =
     (if \<not> dict_contains fit target then False else evaluated_loop fit rest)"

definition is_evaluated :: "'e Solution \<Rightarrow> bool" where
  "is_evaluated self =
     (if dict_len (fitness self) < dict_len (targets self) then False
      else evaluated_loop (fitness self) (dict_keys (targets self)))"

text \<open>
  The loop of \<^verbatim>\<open>comparedTo\<close> that fills \<^verbatim>\<open>differences\<close>, over the keys of
  \<^verbatim>\<open>self.fitness\<close> still to visit. The four subscriptions are evaluated left to
  right and each one can raise \<^verbatim>\<open>KeyError\<close>.
\<close>

fun differences_loop :: "'e Solution \<Rightarrow> 'e Solution \<Rightarrow> string list \<Rightarrow> error + int list" where
  "differences_loop self solution [] = Inr []"
| "differences_loop self solution (t # ts) =
     (case dict_getitem (fitness self) t of Inl e \<Rightarrow> Inl e | Inr fa \<Rightarrow>
      case dict_getitem (targets self) t of Inl e \<Rightarrow> Inl e | Inr da \<Rightarrow>
      case dict_getitem (fitness solution) t of Inl e \<Rightarrow> Inl e | Inr fb \<Rightarrow>
      case dict_getitem (targets solution) t of Inl e \<Rightarrow> Inl e | Inr db \<Rightarrow>
      case differences_loop self solution ts of Inl e \<Rightarrow> Inl e | Inr ds \<Rightarrow>
      Inr ((fa * da - fb * db) # ds))"

definition comparedTo :: "'e Solution \<Rightarrow> 'e Solution \<Rightarrow> error + int" where
  "comparedTo self solution =
     (if card (set (dict_items (targets self)) \<inter> set (dict_items (targets solution)))
           \<noteq> dict_len (targets self)
      then Inl (Exception ''Solutions are not comparables'')
      else if dict_len (fitness self) \<noteq> dict_len (fitness solution)
      then Inl (Exception ''Solutions are not comparables'')
      else
        (case differences_loop self solution (dict_keys (fitness self)) of
           Inl e \<Rightarrow> Inl e
         | Inr differences \<Rightarrow>
             let a_up = int (length (filter (\<lambda>d. 0 < d) differences));
                 b_up = int (length (filter (\<lambda>d. d < 0) differences))
             in Inr (a_up - b_up)))"

definition eq :: "'e Solution \<Rightarrow> 'e Solution \<Rightarrow> error + bool" where
  "eq self solution =
     (case comparedTo self solution of
        Inl e \<Rightarrow> Inl e
      | Inr r \<Rightarrow> Inr (if r = 0 then True else False))"

definition lt :: "'e Solution \<Rightarrow> 'e Solution \<Rightarrow> error + bool" where
  "lt self solution =
     (case comparedTo self solution of
        Inl e \<Rightarrow> Inl e
      | Inr r \<Rightarrow> Inr (if r < 0 then True else False))"

definition gt :: "'e Solution \<Rightarrow> 'e Solution \<Rightarrow> error + bool" where
  "gt self solution =
     (case comparedTo self solution of
        Inl e \<Rightarrow> Inl e
      | Inr r \<Rightarrow> Inr (if 0 < r then True else False))"

definition le :: "'e Solution \<Rightarrow> 'e Solution \<Rightarrow> error + bool" where
  "le self solution =
     (case comparedTo self solution of
        Inl e \<Rightarrow> Inl e
      | Inr r \<Rightarrow> Inr (if r \<le> 0 then True else False))"

definition ge :: "'e Solution \<Rightarrow> 'e Solution \<Rightarrow> error + bool" where
  "ge self solution =
     (case comparedTo self solution of
        Inl e \<Rightarrow> Inl e
      | Inr r \<Rightarrow> Inr (if 0 \<le> r then True else False))"

subsection \<open>Callers and stated properties\<close>

text \<open>
  A caller that sets fitness values one after another, \<^verbatim>\<open>s.set_fitness(t, v)\<close>
  for each pair of the list in turn; the first exception ends the sequence.
\<close>

fun set_fitness_all ::
  "'e Solution \<Rightarrow> (string \<times> int) list \<Rightarrow> (error + unit) \<times> 'e Solution" where
  "set_fitness_all self [] = (Inr (), self)"
| "set_fitness_all self ((target, v) # rest) =
     (case set_fitness self target v of
        (Inl e, self') \<Rightarrow> (Inl e, self')
      | (Inr _, self') \<Rightarrow> set_fitness_all self' rest)"

text \<open>
  The invariant of the data model: the keys of \<open>fitness\<close> are keys of \<open>targets\<close>.
\<close>

definition fitness_subset :: "'e Solution \<Rightarrow> bool" where
  "fitness_subset s = (set (dict_keys (fitness s)) \<subseteq> set (dict_keys (targets s)))"

text \<open>
  The comparison as the specification words it, for two evaluated solutions over one
  targets mapping: the direction of a target, the signed difference
  \<^verbatim>\<open>self.fitness[t] * direction[t] - other.fitness[t] * direction[t]\<close>, and the
  numbers of targets whose difference is strictly positive and strictly negative.
\<close>

definition direction :: "'e Solution \<Rightarrow> string \<Rightarrow> int" where
  "direction s t = the (map_of (targets s) t)"

definition signed_difference :: "'e Solution \<Rightarrow> 'e Solution \<Rightarrow> string \<Rightarrow> int" where
  "signed_difference a b t =
     the (map_of (fitness a) t) * direction a t - the (map_of (fitness b) t) * direction a t"

definition a_up_spec :: "'e Solution \<Rightarrow> 'e Solution \<Rightarrow> nat" where
  "a_up_spec a b =
     card (Set.filter (\<lambda>t. 0 < signed_difference a b t) (set (dict_keys (targets a))))"

definition b_up_spec :: "'e Solution \<Rightarrow> 'e Solution \<Rightarrow> nat" where
  "b_up_spec a b =
     card (Set.filter (\<lambda>t. signed_difference a b t < 0) (set (dict_keys (targets a))))"

text \<open>
  Example solutions. \<open>dom_X\<close> and \<open>dom_Y\<close> are the dominance example (targets
  \<^verbatim>\<open>{a: +1, b: -1}\<close>), \<open>bal_X\<close> and \<open>bal_Y\<close> the balanced one (targets
  \<^verbatim>\<open>{a: +1, b: +1}\<close>); \<open>part_A\<close> and \<open>part_B\<close> are partly evaluated
  solutions over the targets of \<open>dom_X\<close>; the targets of \<open>sup_B\<close> are a strict
  superset of those of \<open>sub_A\<close>.
\<close>

abbreviation dom_X :: "unit Solution" where
  "dom_X \<equiv> \<lparr>targets = [(''a'', 1), (''b'', - 1)], fitness = [(''a'', 10), (''b'', 5)], encoded = []\<rparr>"

abbreviation dom_Y :: "unit Solution" where
  "dom_Y \<equiv> \<lparr>targets = [(''a'', 1), (''b'', - 1)], fitness = [(''b'', 5), (''a'', 8)], encoded = []\<rparr>"

abbreviation bal_X :: "unit Solution" where
  "bal_X \<equiv> \<lparr>targets = [(''a'', 1), (''b'', 1)], fitness = [(''a'', 10), (''b'', 1)], encoded = []\<rparr>"

abbreviation bal_Y :: "unit Solution" where
  "bal_Y \<equiv> \<lparr>targets = [(''a'', 1), (''b'', 1)], fitness = [(''a'', 1), (''b'', 10)], encoded = []\<rparr>"

abbreviation part_A :: "unit Solution" where
  "part_A \<equiv> \<lparr>targets = [(''a'', 1), (''b'', - 1)], fitness = [(''a'', 10)], encoded = []\<rparr>"

abbreviation part_B :: "unit Solution" where
  "part_B \<equiv> \<lparr>targets = [(''b'', - 1), (''a'', 1)], fitness = [(''b'', 5)], encoded = []\<rparr>"

abbreviation sub_A :: "unit Solution" where
  "sub_A \<equiv> \<lparr>targets = [(''a'', 1)], fitness = [(''a'', 1)], encoded = []\<rparr>"

abbreviation sup_B :: "unit Solution" where
  "sup_B \<equiv> \<lparr>targets = [(''a'', 1), (''b'', 1)], fitness = [(''a'', 2)], encoded = []\<rparr>"

subsection \<open>Facts about dictionaries\<close>

lemma dict_contains_iff: "dict_contains d k \<longleftrightarrow> k \<in> set (dict_keys d)"
  by (simp add: dict_contains_def dict_keys_def map_of_eq_None_iff)

lemma dict_getitem_missing: "k \<notin> set (dict_keys d) \<Longrightarrow> dict_getitem d k = Inl (KeyError k)"
proof -
  assume "k \<notin> set (dict_keys d)"
  then have "map_of d k = None"
    by (simp add: dict_keys_def map_of_eq_None_iff)
  then show ?thesis by (simp add: dict_getitem_def)
qed

lemma dict_getitem_no_Exception: "dict_getitem d k \<noteq> Inl (Exception m)"
  by (simp add: dict_getitem_def split: option.splits)

subsection \<open>Reading and writing single fitness values\<close>

text \<open>
  C9. For a target name that is not a key of the solution's \<open>targets\<close>, both
  \<open>get_fitness\<close> and \<open>set_fitness\<close> raise the exception with the message
  \<^verbatim>\<open>'target' does not match\<close>, and \<open>set_fitness\<close> leaves the solution, and
  so its fitness mapping, as it was.
\<close>

theorem undeclared_target_mismatch:
  "t \<notin> set (dict_keys (targets s)) \<Longrightarrow>
     get_fitness s t = Inl (Exception '''target' does not match'') \<and>
     set_fitness s t v = (Inl (Exception '''target' does not match''), s) \<and>
     fitness (snd (set_fitness s t v)) = fitness s"
  by (simp add: get_fitness_def set_fitness_def dict_contains_iff)

theorem undeclared_target_mismatch_witness:
  "''q'' \<notin> set (dict_keys (targets (Solution_init [(''p'', 1)] [''w''] :: unit Solution))) \<and>
   get_fitness (Solution_init [(''p'', 1)] [''w''] :: unit Solution) ''q''
     = Inl (Exception '''target' does not match'') \<and>
   set_fitness (Solution_init [(''p'', 1)] [''w''] :: unit Solution) ''q'' 5
     = (Inl (Exception '''target' does not match''), Solution_init [(''p'', 1)] [''w'']) \<and>
   fitness (snd (set_fitness (Solution_init [(''p'', 1)] [''w''] :: unit Solution) ''q'' 5)) = []"
proof -
  have h: "''q'' \<notin> set (dict_keys (targets (Solution_init [(''p'', 1)] [''w''] :: unit Solution)))"
    by (simp add: Solution_init_def dict_keys_def)
  show ?thesis
    using h undeclared_target_mismatch [OF h, of 5] by (simp add: Solution_init_def)
qed

text \<open>
  C10. For a target name that is a key of \<open>targets\<close> but has no entry in
  \<open>fitness\<close>, \<open>get_fitness\<close> raises the \<^verbatim>\<open>KeyError\<close> of the lookup in the
  fitness mapping; the target-mismatch exception is raised exactly for the names
  that are not keys of \<open>targets\<close>.
\<close>

theorem unrecorded_fitness_KeyError:
  "(t \<in> set (dict_keys (targets s)) \<and> t \<notin> set (dict_keys (fitness s))
      \<longrightarrow> get_fitness s t = Inl (KeyError t)) \<and>
   (get_fitness s t = Inl (Exception '''target' does not match'')
      \<longleftrightarrow> t \<notin> set (dict_keys (targets s)))"
  by (simp add: get_fitness_def dict_contains_iff dict_getitem_missing dict_getitem_no_Exception)

theorem unrecorded_fitness_KeyError_witness:
  "(''p'' \<in> set (dict_keys (targets (Solution_init [(''p'', 1)] [] :: unit Solution))) \<and>
    ''p'' \<notin> set (dict_keys (fitness (Solution_init [(''p'', 1)] [] :: unit Solution)))) \<and>
   get_fitness (Solution_init [(''p'', 1)] [] :: unit Solution) ''p'' = Inl (KeyError ''p'')"
  using unrecorded_fitness_KeyError [of "''p''" "Solution_init [(''p'', 1)] [] :: unit Solution"]
  by (simp add: Solution_init_def dict_keys_def)

subsection \<open>Facts about the loops and the setters\<close>

lemma wf_dict_setitem: "wf_dict d \<Longrightarrow> wf_dict (dict_setitem d k v)"
  by (simp add: wf_dict_def dict_setitem_def distinct_update)

lemma dict_keys_setitem: "set (dict_keys (dict_setitem d k v)) = insert k (set (dict_keys d))"
  using dom_update [of k v d] by (simp add: dict_keys_def dict_setitem_def)

lemma map_of_setitem: "map_of (dict_setitem d k v) = (map_of d)(k \<mapsto> v)"
  by (simp add: dict_setitem_def update_conv')

lemma evaluated_loop_iff:
  "evaluated_loop fit ks \<longleftrightarrow> (\<forall>k\<in>set ks. k \<in> set (dict_keys fit))"
  by (induction ks) (simp_all add: dict_contains_iff)

lemma keys_subset_length:
  assumes "wf_dict d" and "set (dict_keys d) \<subseteq> set (dict_keys d')"
  shows "dict_len d \<le> dict_len d'"
proof -
  have "dict_len d = card (set (dict_keys d))"
    using assms(1) distinct_card [of "map fst d"]
    by (simp add: wf_dict_def dict_keys_def dict_len_def)
  also have "\<dots> \<le> card (set (dict_keys d'))"
    using assms(2) by (simp add: card_mono)
  also have "\<dots> \<le> dict_len d'"
    using card_length [of "dict_keys d'"] by (simp add: dict_keys_def dict_len_def)
  finally show ?thesis .
qed

lemma is_evaluated_iff:
  assumes "wf_dict (targets s)"
  shows "is_evaluated s \<longleftrightarrow> set (dict_keys (targets s)) \<subseteq> set (dict_keys (fitness s))"
proof
  assume "is_evaluated s"
  then show "set (dict_keys (targets s)) \<subseteq> set (dict_keys (fitness s))"
    by (auto simp: is_evaluated_def evaluated_loop_iff split: if_splits)
next
  assume sub: "set (dict_keys (targets s)) \<subseteq> set (dict_keys (fitness s))"
  then have "\<not> dict_len (fitness s) < dict_len (targets s)"
    using keys_subset_length [OF assms sub] by simp
  with sub show "is_evaluated s"
    by (auto simp: is_evaluated_def evaluated_loop_iff)
qed

lemma clear_loop_eq: "clear_loop s ks = (if ks = [] then s else s\<lparr>fitness := []\<rparr>)"
  by (induction ks arbitrary: s) simp_all

lemma targets_clear_fitness: "targets (clear_fitness s) = targets s"
  by (simp add: clear_fitness_def clear_loop_eq)

lemma fitness_clear_fitness:
  "fitness (clear_fitness s) = (if targets s = [] then fitness s else [])"
  by (simp add: clear_fitness_def clear_loop_eq dict_keys_def)

lemma map_of_init_encoded:
  "map_of (init_encoded enc vs) k = (if k \<in> set vs then Some None else map_of enc k)"
  by (induction vs arbitrary: enc) (simp_all add: map_of_setitem)

subsection \<open>Constructing a Problem\<close>

lemma check_targets_eq:
  "set ks \<subseteq> set (dict_keys ts) \<Longrightarrow>
     check_targets ts ks =
       (if \<forall>k\<in>set ks. \<bar>the (map_of ts k)\<bar> = 1 then Inr ()
        else Inl (Exception ''Target must be 1 or -1''))"
proof (induction ks)
  case Nil
  then show ?case by simp
next
  case (Cons k ks)
  from Cons.prems have "k \<in> fst ` set ts"
    by (simp add: dict_keys_def)
  then have "map_of ts k \<noteq> None"
    by (simp add: map_of_eq_None_iff)
  then obtain d where d: "map_of ts k = Some d"
    by (cases "map_of ts k") simp_all
  from Cons show ?case
    by (simp add: dict_getitem_def d)
qed

lemma all_directions_iff:
  fixes ts :: "(string, int) dict"
  assumes "wf_dict ts"
  shows "(\<forall>k\<in>set (dict_keys ts). \<bar>the (map_of ts k)\<bar> = 1)
           \<longleftrightarrow> (\<forall>(t, d)\<in>set ts. d = 1 \<or> d = - 1)"
proof -
  have ab: "\<bar>d\<bar> = 1 \<longleftrightarrow> d = 1 \<or> d = - 1" for d :: int
    by arith
  have mp: "map_of ts k = Some d" if "(k, d) \<in> set ts" for k d
    using that assms by (simp add: wf_dict_def)
  show ?thesis
  proof
    assume l: "\<forall>k\<in>set (dict_keys ts). \<bar>the (map_of ts k)\<bar> = 1"
    show "\<forall>(t, d)\<in>set ts. d = 1 \<or> d = - 1"
    proof (clarify)
      fix t d assume td: "(t, d) \<in> set ts" and "d \<noteq> - 1"
      from td have "t \<in> set (dict_keys ts)"
        by (force simp: dict_keys_def)
      with l have "\<bar>the (map_of ts t)\<bar> = 1" by blast
      with mp [OF td] have "\<bar>d\<bar> = 1" by simp
      with \<open>d \<noteq> - 1\<close> show "d = 1" by arith
    qed
  next
    assume r: "\<forall>(t, d)\<in>set ts. d = 1 \<or> d = - 1"
    show "\<forall>k\<in>set (dict_keys ts). \<bar>the (map_of ts k)\<bar> = 1"
    proof
      fix k assume "k \<in> set (dict_keys ts)"
      then obtain d where kd: "(k, d) \<in> set ts"
        by (auto simp: dict_keys_def)
      with r have "d = 1 \<or> d = - 1" by blast
      then have "\<bar>d\<bar> = 1" by (simp add: ab)
      with mp [OF kd] show "\<bar>the (map_of ts k)\<bar> = 1" by simp
    qed
  qed
qed

text \<open>
  C5. A targets mapping with an entry whose direction is neither \<open>1\<close> nor \<open>-1\<close>
  makes \<open>Problem_init\<close> raise \<^verbatim>\<open>Target must be 1 or -1\<close>; a mapping whose
  directions are all \<open>1\<close> or \<open>-1\<close> is accepted and stored as it is.
\<close>

theorem Problem_init_directions:
  assumes "wf_dict ts"
  shows "((\<exists>(t, d)\<in>set ts. d \<noteq> 1 \<and> d \<noteq> - 1) \<longrightarrow>
            Problem_init data ts verbose kwargs = Inl (Exception ''Target must be 1 or -1'')) \<and>
         ((\<forall>(t, d)\<in>set ts. d = 1 \<or> d = - 1) \<longrightarrow>
            Problem_init data ts verbose kwargs =
              Inr \<lparr>p_targets = ts, p_data = data, p_kwargs = kwargs, p_verbose = verbose\<rparr>)"
proof -
  have "check_targets ts (dict_keys ts) =
          (if \<forall>(t, d)\<in>set ts. d = 1 \<or> d = - 1 then Inr ()
           else Inl (Exception ''Target must be 1 or -1''))"
    using check_targets_eq [of "dict_keys ts" ts] all_directions_iff [OF assms] by simp
  then show ?thesis
    by (auto simp: Problem_init_def)
qed

theorem Problem_init_directions_witness:
  "wf_dict [(''p'', 1 :: int), (''q'', 2)] \<and>
   (\<exists>(t, d)\<in>set [(''p'', 1 :: int), (''q'', 2)]. d \<noteq> 1 \<and> d \<noteq> - 1) \<and>
   Problem_init () [(''p'', 1), (''q'', 2)] 0 () = Inl (Exception ''Target must be 1 or -1'') \<and>
   wf_dict [(''p'', 1 :: int), (''q'', - 1)] \<and>
   list_all (\<lambda>(t, d). d = 1 \<or> d = - 1) [(''p'', 1 :: int), (''q'', - 1)] \<and>
   Problem_init () [(''p'', 1), (''q'', - 1)] 0 () =
     Inr \<lparr>p_targets = [(''p'', 1), (''q'', - 1)], p_data = (), p_kwargs = (), p_verbose = 0\<rparr>"
proof -
  have h1: "wf_dict [(''p'', 1 :: int), (''q'', 2)]"
    by (simp add: wf_dict_def)
  have h2: "wf_dict [(''p'', 1 :: int), (''q'', - 1)]"
    by (simp add: wf_dict_def)
  show ?thesis
    using h1 h2 Problem_init_directions [OF h1, of "()" 0 "()"]
      Problem_init_directions [OF h2, of "()" 0 "()"]
    by simp
qed

subsection \<open>The fitness invariant and \<open>is_evaluated\<close>\<close>

text \<open>
  C6. The keys of \<open>fitness\<close> are keys of \<open>targets\<close> after construction, and
  \<open>set_fitness\<close> and \<open>clear_fitness\<close> keep it so; \<open>is_evaluated\<close> is true exactly
  when every key of \<open>targets\<close> is a key of \<open>fitness\<close>.
\<close>

theorem fitness_keys_invariant:
  "fitness_subset (Solution_init ts vs :: 'e Solution) \<and>
   (fitness_subset (s :: 'e Solution) \<longrightarrow> fitness_subset (snd (set_fitness s t v))) \<and>
   (fitness_subset s \<longrightarrow> fitness_subset (clear_fitness s)) \<and>
   (wf_dict (targets s) \<longrightarrow>
      is_evaluated s = (\<forall>k\<in>set (dict_keys (targets s)). k \<in> set (dict_keys (fitness s))))"
proof (intro conjI impI)
  show "fitness_subset (Solution_init ts vs :: 'e Solution)"
    by (simp add: fitness_subset_def Solution_init_def dict_keys_def)
next
  assume "fitness_subset s"
  then show "fitness_subset (snd (set_fitness s t v))"
    by (auto simp: fitness_subset_def set_fitness_def dict_keys_setitem dict_contains_iff)
next
  assume "fitness_subset s"
  then show "fitness_subset (clear_fitness s)"
    by (cases "targets s = []")
      (simp_all add: fitness_subset_def targets_clear_fitness fitness_clear_fitness dict_keys_def)
next
  assume "wf_dict (targets s)"
  then show "is_evaluated s = (\<forall>k\<in>set (dict_keys (targets s)). k \<in> set (dict_keys (fitness s)))"
    by (auto simp: is_evaluated_iff)
qed

theorem fitness_keys_invariant_witness:
  "fitness_subset (\<lparr>targets = [(''p'', 1), (''q'', - 1)], fitness = [(''p'', 3)], encoded = []\<rparr> :: unit Solution) \<and>
   wf_dict (targets (\<lparr>targets = [(''p'', 1), (''q'', - 1)], fitness = [(''p'', 3)], encoded = []\<rparr> :: unit Solution)) \<and>
   fitness_subset (snd (set_fitness
     (\<lparr>targets = [(''p'', 1), (''q'', - 1)], fitness = [(''p'', 3)], encoded = []\<rparr> :: unit Solution) ''q'' 4)) \<and>
   fitness_subset (clear_fitness
     (\<lparr>targets = [(''p'', 1), (''q'', - 1)], fitness = [(''p'', 3)], encoded = []\<rparr> :: unit Solution)) \<and>
   \<not> is_evaluated (\<lparr>targets = [(''p'', 1), (''q'', - 1)], fitness = [(''p'', 3)], encoded = []\<rparr> :: unit Solution)"
proof -
  have h1: "fitness_subset (\<lparr>targets = [(''p'', 1), (''q'', - 1)], fitness = [(''p'', 3)], encoded = []\<rparr> :: unit Solution)"
    by (simp add: fitness_subset_def dict_keys_def)
  have h2: "wf_dict (targets (\<lparr>targets = [(''p'', 1), (''q'', - 1)], fitness = [(''p'', 3)], encoded = []\<rparr> :: unit Solution))"
    by (simp add: wf_dict_def)
  show ?thesis
    using h1 h2
      fitness_keys_invariant [of "[]" "[]"
        "\<lparr>targets = [(''p'', 1), (''q'', - 1)], fitness = [(''p'', 3)], encoded = []\<rparr> :: unit Solution"
        "''q''" 4]
    by (simp add: dict_keys_def)
qed

text \<open>
  C7, amended. In a freshly constructed solution every declared variable name has the
  encoded value \<^verbatim>\<open>None\<close>, and \<open>is_evaluated\<close> is false provided the targets
  mapping has at least one entry.
\<close>

theorem fresh_solution:
  "(\<forall>v\<in>set vs. get_encoded (Solution_init ts vs :: 'e Solution) v = Inr None) \<and>
   (ts \<noteq> [] \<longrightarrow> \<not> is_evaluated (Solution_init ts vs :: 'e Solution))"
  by (simp add: get_encoded_def Solution_init_def dict_getitem_def map_of_init_encoded
      is_evaluated_def dict_len_def)

theorem fresh_solution_witness:
  "get_encoded (Solution_init [(''p'', 1)] [''w'', ''u''] :: unit Solution) ''u'' = Inr None \<and>
   [(''p'', 1 :: int)] \<noteq> [] \<and>
   \<not> is_evaluated (Solution_init [(''p'', 1)] [''w'', ''u''] :: unit Solution)"
  using fresh_solution [of "[''w'', ''u'']" "[(''p'', 1)]", where ?'e = unit] by simp

text \<open>
  With an empty targets mapping the fresh solution counts as evaluated: neither the
  length test nor the loop of \<open>is_evaluated\<close> finds a missing target.
\<close>

theorem fresh_solution_counterexample:
  "is_evaluated (Solution_init [] [''w''] :: unit Solution)"
  by (simp add: Solution_init_def is_evaluated_def dict_len_def dict_keys_def)

lemma set_fitness_all_declared:
  "fst ` set calls \<subseteq> set (dict_keys (targets s)) \<Longrightarrow>
     fst (set_fitness_all s calls) = Inr () \<and>
     targets (snd (set_fitness_all s calls)) = targets s \<and>
     set (dict_keys (fitness (snd (set_fitness_all s calls))))
       = set (dict_keys (fitness s)) \<union> fst ` set calls"
proof (induction calls arbitrary: s)
  case Nil
  then show ?case by simp
next
  case (Cons c calls)
  obtain t v where c: "c = (t, v)" by (cases c)
  let ?s' = "s\<lparr>fitness := dict_setitem (fitness s) t v\<rparr>"
  from Cons.prems c have t: "dict_contains (targets s) t"
    by (simp add: dict_contains_iff)
  then have step: "set_fitness_all s (c # calls) = set_fitness_all ?s' calls"
    by (simp add: c set_fitness_def)
  from Cons.prems have "fst ` set calls \<subseteq> set (dict_keys (targets ?s'))"
    by simp
  from Cons.IH [OF this] show ?case
    unfolding step by (auto simp: c dict_keys_setitem)
qed

text \<open>
  C8, amended. When \<open>set_fitness\<close> has been called for exactly the declared target
  names (in any order, any number of times each), every call succeeds and
  \<open>is_evaluated\<close> is true; after \<open>clear_fitness\<close> it is false again provided the
  targets mapping has at least one entry.
\<close>

theorem set_all_then_clear:
  assumes "wf_dict (targets s)"
    and "fst ` set calls = set (dict_keys (targets s))"
  shows "fst (set_fitness_all s calls) = Inr () \<and>
         is_evaluated (snd (set_fitness_all s calls)) \<and>
         (targets s \<noteq> [] \<longrightarrow> \<not> is_evaluated (clear_fitness (snd (set_fitness_all s calls))))"
proof -
  let ?s' = "snd (set_fitness_all s calls)"
  from assms(2) have sub: "fst ` set calls \<subseteq> set (dict_keys (targets s))"
    by simp
  note run = set_fitness_all_declared [OF sub]
  from run have ok: "fst (set_fitness_all s calls) = Inr ()"
    and tg: "targets ?s' = targets s"
    and ks: "set (dict_keys (fitness ?s')) = set (dict_keys (fitness s)) \<union> fst ` set calls"
    by simp_all
  have "wf_dict (targets ?s')"
    using assms(1) tg by simp
  moreover have "set (dict_keys (targets ?s')) \<subseteq> set (dict_keys (fitness ?s'))"
    using ks tg assms(2) by auto
  ultimately have ev: "is_evaluated ?s'"
    by (simp add: is_evaluated_iff)
  have "\<not> is_evaluated (clear_fitness ?s')" if "targets s \<noteq> []"
    using that tg
    by (simp add: is_evaluated_def targets_clear_fitness fitness_clear_fitness dict_len_def)
  with ok ev show ?thesis by simp
qed

theorem set_all_then_clear_witness:
  "wf_dict (targets (Solution_init [(''p'', 1), (''q'', - 1)] [] :: unit Solution)) \<and>
   fst ` set [(''q'', 7), (''p'', 2 :: int)]
     = set (dict_keys (targets (Solution_init [(''p'', 1), (''q'', - 1)] [] :: unit Solution))) \<and>
   targets (Solution_init [(''p'', 1), (''q'', - 1)] [] :: unit Solution) \<noteq> [] \<and>
   fst (set_fitness_all (Solution_init [(''p'', 1), (''q'', - 1)] [] :: unit Solution)
          [(''q'', 7), (''p'', 2)]) = Inr () \<and>
   is_evaluated (snd (set_fitness_all (Solution_init [(''p'', 1), (''q'', - 1)] [] :: unit Solution)
          [(''q'', 7), (''p'', 2)])) \<and>
   \<not> is_evaluated (clear_fitness (snd (set_fitness_all
          (Solution_init [(''p'', 1), (''q'', - 1)] [] :: unit Solution) [(''q'', 7), (''p'', 2)])))"
proof -
  have h1: "wf_dict (targets (Solution_init [(''p'', 1), (''q'', - 1)] [] :: unit Solution))"
    by (simp add: Solution_init_def wf_dict_def)
  have h2: "fst ` set [(''q'', 7), (''p'', 2 :: int)]
     = set (dict_keys (targets (Solution_init [(''p'', 1), (''q'', - 1)] [] :: unit Solution)))"
    by (auto simp: Solution_init_def dict_keys_def)
  have h3: "targets (Solution_init [(''p'', 1), (''q'', - 1)] [] :: unit Solution) \<noteq> []"
    by (simp add: Solution_init_def)
  show ?thesis
    using h1 h2 h3 set_all_then_clear [OF h1 h2] by simp
qed

text \<open>
  With an empty targets mapping there is nothing to set, and the solution is evaluated
  before and after \<open>clear_fitness\<close>.
\<close>

theorem set_all_then_clear_counterexample:
  "fst (set_fitness_all (Solution_init [] [] :: unit Solution) []) = Inr () \<and>
   is_evaluated (snd (set_fitness_all (Solution_init [] [] :: unit Solution) [])) \<and>
   is_evaluated (clear_fitness (snd (set_fitness_all (Solution_init [] [] :: unit Solution) [])))"
  by (simp add: Solution_init_def is_evaluated_def clear_fitness_def dict_len_def dict_keys_def)

subsection \<open>Comparing solutions\<close>

lemmas ev_defs = comparedTo_def dict_items_def dict_len_def dict_keys_def dict_getitem_def Let_def

lemma dict_getitem_Inl: "dict_getitem d k = Inl e \<Longrightarrow> e = KeyError k"
  by (simp add: dict_getitem_def split: option.splits)

lemma differences_loop_Inl:
  "differences_loop a b ks = Inl e \<Longrightarrow> e \<in> KeyError ` set ks"
proof (induction ks)
  case Nil
  then show ?case by simp
next
  case (Cons k ks)
  then show ?case
    by (auto split: sum.splits dest: dict_getitem_Inl)
qed

lemma differences_loop_no_Exception:
  "differences_loop a b ks \<noteq> Inl (Exception m)"
  using differences_loop_Inl [of a b ks "Exception m"] by auto

lemma card_items_self:
  fixes d :: "('k, 'v) dict"
  assumes "wf_dict d" and "set (dict_items d) \<subseteq> set (dict_items d')"
  shows "card (set (dict_items d) \<inter> set (dict_items d')) = dict_len d"
proof -
  have "distinct d"
    using assms(1) by (simp add: wf_dict_def distinct_map)
  moreover have "set (dict_items d) \<inter> set (dict_items d') = set d"
    using assms(2) by (auto simp: dict_items_def)
  ultimately show ?thesis
    by (simp add: dict_len_def distinct_card)
qed

lemma card_items_less:
  fixes d :: "('k, 'v) dict"
  assumes "\<not> set (dict_items d) \<subseteq> set (dict_items d')"
  shows "card (set (dict_items d) \<inter> set (dict_items d')) \<noteq> dict_len d"
proof -
  have "set (dict_items d) \<inter> set (dict_items d') \<subset> set d"
    using assms by (auto simp: dict_items_def)
  then have "card (set (dict_items d) \<inter> set (dict_items d')) < card (set d)"
    by (simp add: psubset_card_mono)
  also have "\<dots> \<le> dict_len d"
    by (simp add: dict_len_def card_length)
  finally show ?thesis by simp
qed

lemma dict_getitem_present:
  "k \<in> set (dict_keys d) \<Longrightarrow> dict_getitem d k = Inr (the (map_of d k))"
proof -
  assume "k \<in> set (dict_keys d)"
  then have "map_of d k \<noteq> None"
    by (simp add: dict_keys_def map_of_eq_None_iff)
  then show ?thesis
    by (cases "map_of d k") (simp_all add: dict_getitem_def)
qed

lemma differences_loop_map:
  assumes "set ks \<subseteq> set (dict_keys (fitness a))"
    and "set ks \<subseteq> set (dict_keys (targets a))"
    and "set ks \<subseteq> set (dict_keys (fitness b))"
    and "set ks \<subseteq> set (dict_keys (targets b))"
    and "map_of (targets b) = map_of (targets a)"
  shows "differences_loop a b ks = Inr (map (signed_difference a b) ks)"
  using assms(1-4)
proof (induction ks)
  case Nil
  then show ?case by simp
next
  case (Cons k ks)
  then show ?case
    by (simp add: dict_getitem_present signed_difference_def direction_def assms(5))
qed

lemma count_filter_map:
  assumes "distinct ks"
  shows "length (filter P (map f ks)) = card (Set.filter (\<lambda>t. P (f t)) (set ks))"
proof -
  have "length (filter P (map f ks)) = length (filter (\<lambda>t. P (f t)) ks)"
    by (simp add: filter_map o_def)
  also have "\<dots> = card (set (filter (\<lambda>t. P (f t)) ks))"
    using assms distinct_card [of "filter (\<lambda>t. P (f t)) ks"] by simp
  also have "\<dots> = card (Set.filter (\<lambda>t. P (f t)) (set ks))"
    by (simp only: filter_set)
  finally show ?thesis .
qed

lemma same_keys_same_length:
  assumes "wf_dict d" and "wf_dict d'" and "set (dict_keys d) = set (dict_keys d')"
  shows "dict_len d = dict_len d'"
  using keys_subset_length [OF assms(1), of d'] keys_subset_length [OF assms(2), of d] assms(3)
  by simp

lemma dominance_example: "comparedTo dom_X dom_Y = Inr 1"
  by (simp add: ev_defs)

lemma symmetric_example: "comparedTo dom_Y dom_X = Inr (- 1)"
  by (simp add: ev_defs)

text \<open>
  C1. For two solutions with the same targets mapping, each with a fitness value for
  every declared target (and, as for every solution, fitness keys among the target
  keys), \<open>comparedTo\<close> returns \<open>a_up - b_up\<close>: the number of targets whose signed
  difference \<^verbatim>\<open>a.fitness[t] * direction[t] - b.fitness[t] * direction[t]\<close> is
  strictly positive minus the number of those where it is strictly negative.
\<close>

theorem comparedTo_counts:
  assumes wf: "wf_dict (targets a)" "wf_dict (targets b)" "wf_dict (fitness a)" "wf_dict (fitness b)"
    and inv: "fitness_subset a" "fitness_subset b"
    and same: "set (dict_items (targets a)) = set (dict_items (targets b))"
    and ev: "is_evaluated a" "is_evaluated b"
  shows "comparedTo a b = Inr (int (a_up_spec a b) - int (b_up_spec a b))"
proof -
  have keys_a: "set (dict_keys (fitness a)) = set (dict_keys (targets a))"
    using inv(1) ev(1) wf(1) by (auto simp: fitness_subset_def is_evaluated_iff)
  have keys_b: "set (dict_keys (fitness b)) = set (dict_keys (targets b))"
    using inv(2) ev(2) wf(2) by (auto simp: fitness_subset_def is_evaluated_iff)
  have maps: "map_of (targets b) = map_of (targets a)"
    using wf(1,2) same map_of_inject_set [of "targets b" "targets a"]
    by (simp add: wf_dict_def dict_items_def)
  have keys_t: "set (dict_keys (targets b)) = set (dict_keys (targets a))"
    using same by (simp add: dict_keys_def dict_items_def)
  have c1: "card (set (dict_items (targets a)) \<inter> set (dict_items (targets b)))
              = dict_len (targets a)"
    using card_items_self [OF wf(1), of "targets b"] same by simp
  have c2: "dict_len (fitness a) = dict_len (fitness b)"
    using same_keys_same_length [OF wf(3,4)] keys_a keys_b keys_t by simp
  have loop: "differences_loop a b (dict_keys (fitness a))
                = Inr (map (signed_difference a b) (dict_keys (fitness a)))"
    using differences_loop_map [of "dict_keys (fitness a)" a b] keys_a keys_b keys_t maps
    by simp
  have d: "distinct (dict_keys (fitness a))"
    using wf(3) by (simp add: wf_dict_def dict_keys_def)
  have up: "length (filter (\<lambda>d. 0 < d) (map (signed_difference a b) (dict_keys (fitness a))))
              = a_up_spec a b"
    unfolding a_up_spec_def keys_a [symmetric] by (rule count_filter_map [OF d])
  have down: "length (filter (\<lambda>d. d < 0) (map (signed_difference a b) (dict_keys (fitness a))))
              = b_up_spec a b"
    unfolding b_up_spec_def keys_a [symmetric] by (rule count_filter_map [OF d])
  show ?thesis
    using up down by (simp add: comparedTo_def Let_def c1 c2 loop)
qed

theorem comparedTo_counts_witness:
  "wf_dict (targets dom_X) \<and> wf_dict (targets dom_Y) \<and>
   wf_dict (fitness dom_X) \<and> wf_dict (fitness dom_Y) \<and>
   fitness_subset dom_X \<and> fitness_subset dom_Y \<and>
   set (dict_items (targets dom_X)) = set (dict_items (targets dom_Y)) \<and>
   is_evaluated dom_X \<and> is_evaluated dom_Y \<and>
   a_up_spec dom_X dom_Y = 1 \<and> b_up_spec dom_X dom_Y = 0 \<and>
   comparedTo dom_X dom_Y = Inr 1"
proof -
  have h1: "wf_dict (targets dom_X)" and h2: "wf_dict (targets dom_Y)"
    and h3: "wf_dict (fitness dom_X)" and h4: "wf_dict (fitness dom_Y)"
    by (simp_all add: wf_dict_def)
  have h5: "fitness_subset dom_X" and h6: "fitness_subset dom_Y"
    by (auto simp: fitness_subset_def dict_keys_def)
  have h7: "set (dict_items (targets dom_X)) = set (dict_items (targets dom_Y))"
    by (simp add: dict_items_def)
  have h8: "is_evaluated dom_X" and h9: "is_evaluated dom_Y"
    by (simp_all add: is_evaluated_def dict_len_def dict_keys_def dict_contains_def)
  have up: "a_up_spec dom_X dom_Y = 1"
    by code_simp
  have down: "b_up_spec dom_X dom_Y = 0"
    by code_simp
  show ?thesis
    using h1 h2 h3 h4 h5 h6 h7 h8 h9 up down
      comparedTo_counts [OF h1 h2 h3 h4 h5 h6 h7 h8 h9]
    by simp
qed

lemma comparedTo_not_subset:
  assumes "\<not> set (dict_items (targets a)) \<subseteq> set (dict_items (targets b))"
  shows "comparedTo a b = Inl (Exception ''Solutions are not comparables'')"
  using card_items_less [OF assms] by (simp add: comparedTo_def)

text \<open>
  C2. The guard on the targets compares the size of the intersection of the two item
  sets with \<^verbatim>\<open>len(self.targets)\<close> only. It raises whenever the targets of
  \<open>self\<close> are not contained in those of the other solution (lemma
  \<open>comparedTo_not_subset\<close>), but when the other solution's targets are a strict
  superset the comparison goes on and returns a value, while the same comparison the
  other way round raises.
\<close>

theorem comparedTo_superset_targets:
  "set (dict_items (targets sub_A)) \<noteq> set (dict_items (targets sup_B)) \<and>
   set (dict_items (targets sub_A)) \<subset> set (dict_items (targets sup_B)) \<and>
   comparedTo sub_A sup_B = Inr (- 1) \<and>
   comparedTo sup_B sub_A = Inl (Exception ''Solutions are not comparables'')"
  by (auto simp: ev_defs)

text \<open>
  C3. For two solutions with the same targets mapping, \<open>comparedTo\<close> raises
  \<^verbatim>\<open>Solutions are not comparables\<close> if and only if the two fitness mappings have
  different numbers of entries; with equal numbers it never raises that exception,
  whatever the keys are.
\<close>

theorem fitness_count_check:
  assumes "wf_dict (targets a)"
    and "set (dict_items (targets a)) = set (dict_items (targets b))"
  shows "comparedTo a b = Inl (Exception ''Solutions are not comparables'')
           \<longleftrightarrow> dict_len (fitness a) \<noteq> dict_len (fitness b)"
proof -
  have "card (set (dict_items (targets a)) \<inter> set (dict_items (targets b)))
          = dict_len (targets a)"
    using card_items_self [OF assms(1), of "targets b"] assms(2) by simp
  then show ?thesis
    using differences_loop_no_Exception [of a b "dict_keys (fitness a)"]
    by (auto simp: comparedTo_def Let_def split: sum.splits)
qed

theorem fitness_count_check_witness:
  "wf_dict (targets part_A) \<and>
   set (dict_items (targets part_A)) = set (dict_items (targets dom_Y)) \<and>
   dict_len (fitness part_A) \<noteq> dict_len (fitness dom_Y) \<and>
   comparedTo part_A dom_Y = Inl (Exception ''Solutions are not comparables'') \<and>
   set (dict_items (targets part_A)) = set (dict_items (targets part_B)) \<and>
   dict_len (fitness part_A) = dict_len (fitness part_B) \<and>
   set (dict_keys (fitness part_A)) \<noteq> set (dict_keys (fitness part_B)) \<and>
   comparedTo part_A part_B \<noteq> Inl (Exception ''Solutions are not comparables'')"
proof -
  have h1: "wf_dict (targets part_A)"
    by (simp add: wf_dict_def)
  have h2: "set (dict_items (targets part_A)) = set (dict_items (targets dom_Y))"
    by (simp add: dict_items_def)
  have h3: "set (dict_items (targets part_A)) = set (dict_items (targets part_B))"
    by (auto simp: dict_items_def)
  have l1: "dict_len (fitness part_A) \<noteq> dict_len (fitness dom_Y)"
    by (simp add: dict_len_def)
  have l2: "dict_len (fitness part_A) = dict_len (fitness part_B)"
    by (simp add: dict_len_def)
  have k: "set (dict_keys (fitness part_A)) \<noteq> set (dict_keys (fitness part_B))"
    by (simp add: dict_keys_def)
  show ?thesis
    using h1 h2 h3 l1 l2 k fitness_count_check [OF h1 h2] fitness_count_check [OF h1 h3]
    by simp
qed

text \<open>
  C4. When \<open>comparedTo\<close> returns \<open>r\<close>, the operators \<^verbatim>\<open>==\<close>, \<^verbatim>\<open><\<close>,
  \<^verbatim>\<open>>\<close>, \<^verbatim>\<open><=\<close>, \<^verbatim>\<open>>=\<close> return \<open>r = 0\<close>, \<open>r < 0\<close>, \<open>0 < r\<close>,
  \<open>r \<le> 0\<close>, \<open>0 \<le> r\<close>; in the balanced example the two solutions compare equal
  although they differ in the fitness of every target.
\<close>

theorem relational_operators:
  "(comparedTo a b = Inr r \<longrightarrow>
      eq a b = Inr (r = 0) \<and> lt a b = Inr (r < 0) \<and> gt a b = Inr (0 < r) \<and>
      le a b = Inr (r \<le> 0) \<and> ge a b = Inr (0 \<le> r)) \<and>
   comparedTo bal_X bal_Y = Inr 0 \<and>
   eq bal_X bal_Y = Inr True \<and>
   get_fitness bal_X ''a'' \<noteq> get_fitness bal_Y ''a'' \<and>
   get_fitness bal_X ''b'' \<noteq> get_fitness bal_Y ''b''"
proof -
  have c: "comparedTo bal_X bal_Y = Inr 0"
    by (simp add: ev_defs)
  have g: "get_fitness bal_X ''a'' \<noteq> get_fitness bal_Y ''a''"
    "get_fitness bal_X ''b'' \<noteq> get_fitness bal_Y ''b''"
    by (simp_all add: get_fitness_def dict_contains_def dict_getitem_def)
  show ?thesis
    using c g by (simp add: eq_def lt_def gt_def le_def ge_def)
qed

theorem relational_operators_witness:
  "comparedTo dom_X dom_Y = Inr 1 \<and>
   eq dom_X dom_Y = Inr False \<and> lt dom_X dom_Y = Inr False \<and> gt dom_X dom_Y = Inr True \<and>
   le dom_X dom_Y = Inr False \<and> ge dom_X dom_Y = Inr True"
proof -
  have c: "comparedTo dom_X dom_Y = Inr 1"
    by (simp add: ev_defs)
  show ?thesis
    using c relational_operators [of dom_X dom_Y 1] by simp
qed

end
